theory Spec2Isabelle
  imports Complex_Main
begin

section \<open>The command builder: \<open>get_ffmpeg_command\<close> of main.py\<close>

text \<open>
  \<open>get_ffmpeg_command(preset, input_path, output_path)\<close> is a chain of string
  comparisons on the preset; each branch returns one f-string, written in the source as
  adjacent literals. The model keeps the branches in the source's order and keeps each
  literal of the source as one literal here. The character \<open>"\<close> of the command line is
  written as it is in the source.
\<close>

definition get_ffmpeg_command :: "string \<Rightarrow> string \<Rightarrow> string \<Rightarrow> string" where
  \<open>get_ffmpeg_command preset input_path output_path =
     (if preset = ''lofi'' \<or> preset = ''tiktok_lofi'' \<or> preset = ''chill_lofi'' then
        ''ffmpeg -i "'' @ input_path @ ''" '' @
        ''-filter_complex "'' @
        ''lowpass=f=3000,'' @
        ''highpass=f=200,'' @
        ''equalizer=f=60:width_type=h:width=100:g=10,'' @
        ''vibrato=f=0.25:d=0.3,'' @
        ''asetrate=44100*0.97,aresample=44100'' @
        ''" '' @
        ''-c:a aac -b:a 320k "'' @ output_path @ ''"''
      else if preset = ''reverb'' then
        ''ffmpeg -i "'' @ input_path @ ''" '' @
        ''-filter_complex "'' @
        ''atempo=0.85,'' @
        ''asetrate=44100*0.95,aresample=44100,'' @
        ''reverb=roomsize=0.8:wet=0.45:dry=0.55,'' @
        ''equalizer=f=60:width_type=h:width=100:g=12'' @
        ''" '' @
        ''-c:a aac -b:a 320k "'' @ output_path @ ''"''
      else if preset = ''nightcore'' then
        ''ffmpeg -i "'' @ input_path @ ''" '' @
        ''-filter_complex "'' @
        ''atempo=1.25,'' @
        ''asetrate=44100*1.1,aresample=44100,'' @
        ''highpass=f=100,'' @
        ''equalizer=f=8000:width_type=h:width=2000:g=8'' @
        ''" '' @
        ''-c:a aac -b:a 320k "'' @ output_path @ ''"''
      else if preset = ''8d_audio'' then
        ''ffmpeg -i "'' @ input_path @ ''" '' @
        ''-filter_complex "'' @
        ''apulsator=hz=0.35:width=0.5,'' @
        ''stereotools=mlev=0.5:phase=0.25,'' @
        ''extrastereo=m=2.0,'' @
        ''reverb=roomsize=0.5:wet=0.3'' @
        ''" '' @
        ''-c:a aac -b:a 320k "'' @ output_path @ ''"''
      else if preset = ''vaporwave'' then
        ''ffmpeg -i "'' @ input_path @ ''" '' @
        ''-filter_complex "'' @
        ''atempo=0.90,'' @
        ''asetrate=44100*0.93,aresample=44100,'' @
        ''reverb=roomsize=0.6:wet=0.35,'' @
        ''equalizer=f=60:width_type=h:width=100:g=10'' @
        ''" '' @
        ''-c:a aac -b:a 320k "'' @ output_path @ ''"''
      else
        ''ffmpeg -i "'' @ input_path @ ''" -c:a aac -b:a 320k "'' @ output_path @ ''"'')\<close>

section \<open>The request handler: \<open>process_audio\<close> of main.py\<close>

text \<open>
  The handler talks to three collaborators: the uploaded file, the file system under
  \<open>/tmp/audio\<close> and the external engine started by \<open>subprocess.run\<close>. They are
  made explicit. The file system is a map from paths to contents and is passed through
  the handler. Every raise of the source is a value: an exception is \<open>TimeoutExpired\<close>
  or any other instance of \<open>Exception\<close>, which carries the text \<open>str(e)\<close>. What the
  collaborators do on one request is given by an environment: the identifier drawn by
  \<open>uuid.uuid4()\<close>, whether \<open>open\<close>, \<open>f.write\<close> and \<open>unlink\<close> raise, and the
  behaviour of \<open>subprocess.run\<close> on a command line, a timeout in seconds and a file
  system. The upload has its file name, a string as for every file part of a multipart
  form, and the result of \<open>await file.read()\<close>. The calls to the logger change neither
  the response nor the file system and are left out.
\<close>

datatype exn = TimeoutExpired | Exception string

type_synonym fs = "string \<rightharpoonup> string"

record completed_process =
  returncode :: int
  stderr :: string

record upload_file =
  filename :: string
  read :: "exn + string"

record env =
  uuid4 :: string
  open_fault :: "exn option"
  write_fault :: "exn option"
  subprocess_run :: "string \<Rightarrow> nat \<Rightarrow> fs \<Rightarrow> (exn + completed_process) \<times> fs"
  unlink_fault :: "exn option"

text \<open>
  A response is the dictionary returned on an error path, kept as the list of its items
  in the order of the source, or a \<open>FileResponse\<close> with its \<open>path\<close>, its
  \<open>media_type\<close> and its \<open>filename\<close>, in this order.
\<close>

datatype response = JSON "(string \<times> string) list" | FileResponse string string string

definition TEMP_DIR :: string where
  "TEMP_DIR = ''/tmp/audio''"

definition input_path_of :: "string \<Rightarrow> string" where
  "input_path_of file_id = TEMP_DIR @ ''/'' @ file_id @ ''_input.mp3''"

definition output_path_of :: "string \<Rightarrow> string" where
  "output_path_of file_id = TEMP_DIR @ ''/'' @ file_id @ ''_output.m4a''"

text \<open>
  \<open>s.rsplit(sep, 1)\<close> of Python: the string is cut at the last occurrence of the
  separator; a string without the separator comes back whole, as the only element.
\<close>

definition rsplit1 :: "char \<Rightarrow> string \<Rightarrow> string list" where
  "rsplit1 sep s =
     (if sep \<in> set s
      then [rev (tl (dropWhile (\<lambda>c. c \<noteq> sep) (rev s))), rev (takeWhile (\<lambda>c. c \<noteq> sep) (rev s))]
      else [s])"

text \<open>
  Lines 55 to 57: \<open>open(input_path, "wb")\<close> creates the file empty, then the upload
  is read, then its content is written. A raise leaves the file as it is at that moment.
\<close>

definition save_upload :: "env \<Rightarrow> upload_file \<Rightarrow> string \<Rightarrow> fs \<Rightarrow> (exn + unit) \<times> fs" where
  "save_upload env file input_path fs =
     (case open_fault env of
        Some e \<Rightarrow> (Inl e, fs)
      | None \<Rightarrow>
          (let fs1 = fs(input_path \<mapsto> []) in
           case read file of
             Inl e \<Rightarrow> (Inl e, fs1)
           | Inr content \<Rightarrow>
               (case write_fault env of
                  Some e \<Rightarrow> (Inl e, fs1)
                | None \<Rightarrow> (Inr (), fs1(input_path \<mapsto> content)))))"

text \<open>The body of the \<open>try\<close> statement, lines 53 to 99.\<close>

definition try_body ::
  "env \<Rightarrow> upload_file \<Rightarrow> string \<Rightarrow> string \<Rightarrow> string \<Rightarrow> fs \<Rightarrow> (exn + response) \<times> fs" where
  "try_body env file preset input_path output_path fs =
     (case save_upload env file input_path fs of
        (Inl e, fs1) \<Rightarrow> (Inl e, fs1)
      | (Inr u, fs1) \<Rightarrow>
          (let ffmpeg_cmd = get_ffmpeg_command preset input_path output_path in
           case subprocess_run env ffmpeg_cmd 300 fs1 of
             (Inl e, fs2) \<Rightarrow> (Inl e, fs2)
           | (Inr result, fs2) \<Rightarrow>
               if returncode result \<noteq> 0 then
                 (Inr (JSON [(''status'', ''error''), (''message'', ''Processing failed''),
                             (''error'', stderr result)]), fs2)
               else if fs2 output_path = None then
                 (Inr (JSON [(''status'', ''error''), (''message'', ''Output file not created'')]), fs2)
               else
                 (Inr (FileResponse output_path ''audio/mp4''
                        (preset @ ''_'' @ hd (rsplit1 CHR ''.'' (filename file)) @ ''.m4a'')), fs2)))"

text \<open>The two \<open>except\<close> clauses, lines 101 to 113; both return a dictionary.\<close>

definition except_clauses :: "exn + response \<Rightarrow> exn + response" where
  "except_clauses r =
     (case r of
        Inr resp \<Rightarrow> Inr resp
      | Inl TimeoutExpired \<Rightarrow>
          Inr (JSON [(''status'', ''error''), (''message'', ''Processing timeout'')])
      | Inl (Exception msg) \<Rightarrow>
          Inr (JSON [(''status'', ''error''), (''message'', msg)]))"

text \<open>
  The \<open>finally\<close> clause, lines 115 to 121: the input file is unlinked when it exists,
  and an exception of the unlinking is caught and logged as a warning.
\<close>

definition unlink :: "env \<Rightarrow> string \<Rightarrow> fs \<Rightarrow> (exn + unit) \<times> fs" where
  "unlink env p fs =
     (case unlink_fault env of
        Some e \<Rightarrow> (Inl e, fs)
      | None \<Rightarrow> (Inr (), fs(p := None)))"

definition cleanup :: "env \<Rightarrow> string \<Rightarrow> fs \<Rightarrow> (exn + unit) \<times> fs" where
  "cleanup env input_path fs =
     (case (if fs input_path \<noteq> None then unlink env input_path fs else (Inr (), fs)) of
        (Inl e, fs') \<Rightarrow> (Inr (), fs')
      | (Inr u, fs') \<Rightarrow> (Inr (), fs'))"

text \<open>
  The handler. Its result is what the caller sees, a returned response (\<open>Inr\<close>) or an
  exception that leaves the handler (\<open>Inl\<close>), and the file system it leaves. As in
  Python, an exception leaving the \<open>finally\<close> clause would replace the pending
  return value.
\<close>

definition process_audio :: "env \<Rightarrow> upload_file \<Rightarrow> string \<Rightarrow> fs \<Rightarrow> (exn + response) \<times> fs" where
  "process_audio env file preset fs =
     (let file_id = uuid4 env;
          input_path = input_path_of file_id;
          output_path = output_path_of file_id
      in case try_body env file preset input_path output_path fs of
           (r, fs1) \<Rightarrow>
             (let outcome = except_clauses r in
              case cleanup env input_path fs1 of
                (Inl e, fs2) \<Rightarrow> (Inl e, fs2)
              | (Inr u, fs2) \<Rightarrow> (outcome, fs2)))"

section \<open>The specification's side: presets, filter chains, file names\<close>

text \<open>
  The definitions of this section are not taken from main.py. They write down what
  the specification says, so that the command builder and the handler can be compared
  with it: the seven preset identifiers, the two shapes of an invocation, the table of
  section 4.2 with its stages and their parameters, and a reading of the engine's filter
  syntax (filters separated by commas, a filter being a name, \<open>=\<close> and options
  separated by colons).
\<close>

definition recognised_presets :: "string set" where
  "recognised_presets =
     {''lofi'', ''tiktok_lofi'', ''chill_lofi'', ''reverb'', ''nightcore'', ''8d_audio'', ''vaporwave''}"

definition filtered_invocation :: "string \<Rightarrow> string \<Rightarrow> string \<Rightarrow> string" where
  \<open>filtered_invocation input_path chain output_path =
     ''ffmpeg -i "'' @ input_path @ ''" -filter_complex "'' @ chain @
     ''" -c:a aac -b:a 320k "'' @ output_path @ ''"''\<close>

definition default_invocation :: "string \<Rightarrow> string \<Rightarrow> string" where
  \<open>default_invocation input_path output_path =
     ''ffmpeg -i "'' @ input_path @ ''" -c:a aac -b:a 320k "'' @ output_path @ ''"''\<close>

text \<open>
  The stages of the table of section 4.2. A frequency is in Hz, a tempo or a pitch is a
  factor, a reverb has its room size and its wet level where the table gives them.
\<close>

datatype stage =
    Lowpass | Highpass | EQ_boost nat | Vibrato | Tempo rat | Resample_pitch rat
  | Reverb "(rat \<times> rat) option" | Pulsation rat | Stereo_adjust | Stereo_widening rat

definition table_4_2 :: "string \<Rightarrow> stage list" where
  "table_4_2 preset =
     (if preset = ''lofi'' \<or> preset = ''tiktok_lofi'' \<or> preset = ''chill_lofi'' then
        [Lowpass, Highpass, EQ_boost 60, Vibrato, Resample_pitch (97 / 100)]
      else if preset = ''reverb'' then
        [Tempo (85 / 100), Resample_pitch (95 / 100), Reverb (Some (8 / 10, 45 / 100)), EQ_boost 60]
      else if preset = ''nightcore'' then
        [Tempo (125 / 100), Resample_pitch (110 / 100), Highpass, EQ_boost 8000]
      else if preset = ''8d_audio'' then
        [Pulsation (35 / 100), Stereo_adjust, Stereo_widening 2, Reverb None]
      else if preset = ''vaporwave'' then
        [Tempo (90 / 100), Resample_pitch (93 / 100), Reverb (Some (6 / 10, 35 / 100)), EQ_boost 60]
      else [])"

text \<open>Splitting at every occurrence of a separator, as \<open>str.split(sep)\<close> does.\<close>

fun split_on :: "char \<Rightarrow> string \<Rightarrow> string list" where
  "split_on sep [] = [[]]"
| "split_on sep (c # cs) =
     (if c = sep then [] # split_on sep cs
      else (case split_on sep cs of [] \<Rightarrow> [[c]] | w # ws \<Rightarrow> (c # w) # ws))"

definition before :: "char \<Rightarrow> string \<Rightarrow> string" where
  "before c s = takeWhile (\<lambda>x. x \<noteq> c) s"

definition after :: "char \<Rightarrow> string \<Rightarrow> string" where
  "after c s = drop 1 (dropWhile (\<lambda>x. x \<noteq> c) s)"

text \<open>
  A filter is read as its name and its options; an option without a key, as in
  \<open>atempo=0.85\<close>, gets the empty key.
\<close>

type_synonym ffilter = "string \<times> (string \<times> string) list"

definition parse_option :: "string \<Rightarrow> string \<times> string" where
  "parse_option s =
     (if CHR ''='' \<in> set s then (before CHR ''='' s, after CHR ''='' s) else ([], s))"

definition parse_filter :: "string \<Rightarrow> ffilter" where
  "parse_filter s =
     (before CHR ''='' s, map parse_option (split_on CHR '':'' (after CHR ''='' s)))"

definition filter_chain_stages :: "string \<Rightarrow> ffilter list" where
  "filter_chain_stages chain = map parse_filter (split_on CHR '','' chain)"

text \<open>Decimal numerals such as \<open>8000\<close>, \<open>0.97\<close> and \<open>1.1\<close>, read as rationals.\<close>

definition digit :: "char \<Rightarrow> nat option" where
  "digit c =
     (let n = (of_char c :: nat) in if 48 \<le> n \<and> n \<le> 57 then Some (n - 48) else None)"

fun nat_of_digits :: "string \<Rightarrow> nat \<Rightarrow> nat option" where
  "nat_of_digits [] acc = Some acc"
| "nat_of_digits (c # cs) acc =
     (case digit c of None \<Rightarrow> None | Some d \<Rightarrow> nat_of_digits cs (10 * acc + d))"

definition nat_of_string :: "string \<Rightarrow> nat option" where
  "nat_of_string s = (if s = [] then None else nat_of_digits s 0)"

definition decimal :: "string \<Rightarrow> rat option" where
  "decimal s =
     (let ip = before CHR ''.'' s; fp = after CHR ''.'' s in
      case (nat_of_string ip, if fp = [] then Some 0 else nat_of_string fp) of
        (Some a, Some b) \<Rightarrow> Some (of_nat a + of_nat b / 10 ^ length fp)
      | _ \<Rightarrow> None)"

definition opt_decimal :: "(string \<times> string) list \<Rightarrow> string \<Rightarrow> rat option" where
  "opt_decimal opts k = Option.bind (map_of opts k) decimal"

text \<open>
  When filters of the engine realise a stage of the table. An equaliser boosts when its
  gain is positive. A change of pitch by resampling takes two filters: \<open>asetrate\<close>
  with the sample rate times the factor, then \<open>aresample\<close> back to that sample rate.
\<close>

fun realises :: "stage \<Rightarrow> ffilter list \<Rightarrow> bool" where
  "realises Lowpass [(n, opts)] = (n = ''lowpass'')"
| "realises Highpass [(n, opts)] = (n = ''highpass'')"
| "realises (EQ_boost hz) [(n, opts)] =
     (n = ''equalizer'' \<and> Option.bind (map_of opts ''f'') nat_of_string = Some hz \<and>
      (case opt_decimal opts ''g'' of Some g \<Rightarrow> 0 < g | None \<Rightarrow> False))"
| "realises Vibrato [(n, opts)] = (n = ''vibrato'')"
| "realises (Tempo r) [(n, opts)] = (n = ''atempo'' \<and> opt_decimal opts [] = Some r)"
| "realises (Resample_pitch r) [(n1, opts1), (n2, opts2)] =
     (n1 = ''asetrate'' \<and> n2 = ''aresample'' \<and>
      (case (map_of opts1 [], map_of opts2 []) of
         (Some e, Some rate) \<Rightarrow>
           before CHR ''*'' e = rate \<and> decimal (after CHR ''*'' e) = Some r
       | _ \<Rightarrow> False))"
| "realises (Reverb None) [(n, opts)] = (n = ''reverb'')"
| "realises (Reverb (Some (room, wet))) [(n, opts)] =
     (n = ''reverb'' \<and> opt_decimal opts ''roomsize'' = Some room \<and>
      opt_decimal opts ''wet'' = Some wet)"
| "realises (Pulsation hz) [(n, opts)] =
     (n = ''apulsator'' \<and> opt_decimal opts ''hz'' = Some hz)"
| "realises Stereo_adjust [(n, opts)] = (n = ''stereotools'')"
| "realises (Stereo_widening m) [(n, opts)] =
     (n = ''extrastereo'' \<and> opt_decimal opts ''m'' = Some m)"
| "realises _ _ = False"

fun stage_width :: "stage \<Rightarrow> nat" where
  "stage_width (Resample_pitch r) = 2"
| "stage_width _ = 1"

fun chain_matches :: "stage list \<Rightarrow> ffilter list \<Rightarrow> bool" where
  "chain_matches [] fs = (fs = [])"
| "chain_matches (s # ss) fs =
     (realises s (take (stage_width s) fs) \<and> chain_matches ss (drop (stage_width s) fs))"



text \<open>
  What \<open>subprocess.run\<close> returned on a request, when the handler got as far as calling
  it (lines 55 to 74): nothing when saving the upload raised, otherwise the result of the
  call on the built command with the timeout of 300 seconds, and the file system after it.
\<close>

definition engine_run ::
  "env \<Rightarrow> upload_file \<Rightarrow> string \<Rightarrow> fs \<Rightarrow> ((exn + completed_process) \<times> fs) option" where
  "engine_run env file preset fs =
     (let file_id = uuid4 env;
          input_path = input_path_of file_id;
          output_path = output_path_of file_id
      in case save_upload env file input_path fs of
           (Inl e, fs1) \<Rightarrow> None
         | (Inr u, fs1) \<Rightarrow>
             Some (subprocess_run env (get_ffmpeg_command preset input_path output_path) 300 fs1))"

section \<open>Example requests\<close>

text \<open>
  Concrete collaborators, on which the handler is run below: engines that write the
  output file of job \<open>job1\<close> and exit with status 0, that exit with status 1 and a
  diagnostic, that exit with status 0 without writing anything, that run into the
  timeout, and that cannot be started; uploads named \<open>song.wav\<close>,
  \<open>music/song.wav\<close> and \<open>track\<close>; an environment
  without faults, one whose \<open>unlink\<close> raises and one whose \<open>open\<close> raises with a
  given text.
\<close>

type_synonym engine = "string \<Rightarrow> nat \<Rightarrow> fs \<Rightarrow> (exn + completed_process) \<times> fs"

definition engine_writes :: engine where
  "engine_writes cmd timeout fs =
     (Inr \<lparr>returncode = 0, stderr = []\<rparr>, fs(output_path_of ''job1'' \<mapsto> ''aac''))"

definition engine_fails :: engine where
  "engine_fails cmd timeout fs =
     (Inr \<lparr>returncode = 1, stderr = ''Invalid data found''\<rparr>, fs)"

definition engine_silent :: engine where
  "engine_silent cmd timeout fs = (Inr \<lparr>returncode = 0, stderr = []\<rparr>, fs)"

definition engine_hangs :: engine where
  "engine_hangs cmd timeout fs = (Inl TimeoutExpired, fs)"

definition engine_unstartable :: engine where
  "engine_unstartable cmd timeout fs = (Inl (Exception ''Cannot allocate memory''), fs)"

definition song :: upload_file where
  "song = \<lparr>filename = ''song.wav'', read = Inr ''RIFF''\<rparr>"



definition empty_fs :: fs where
  "empty_fs = Map.empty"

definition env_of :: "engine \<Rightarrow> env" where
  "env_of run =
     \<lparr>uuid4 = ''job1'', open_fault = None, write_fault = None, subprocess_run = run,
      unlink_fault = None\<rparr>"

definition env_unlink_denied :: "engine \<Rightarrow> env" where
  "env_unlink_denied run = (env_of run)\<lparr>unlink_fault := Some (Exception ''Permission denied'')\<rparr>"

definition env_open_fault :: "string \<Rightarrow> env" where
  "env_open_fault msg = (env_of engine_writes)\<lparr>open_fault := Some (Exception msg)\<rparr>"

section \<open>Properties of the command builder\<close>

lemma unrecognised_iff:
  "preset \<notin> recognised_presets \<longleftrightarrow>
     preset \<noteq> ''lofi'' \<and> preset \<noteq> ''tiktok_lofi'' \<and> preset \<noteq> ''chill_lofi'' \<and>
     preset \<noteq> ''reverb'' \<and> preset \<noteq> ''nightcore'' \<and> preset \<noteq> ''8d_audio'' \<and>
     preset \<noteq> ''vaporwave''"
  unfolding recognised_presets_def
  by (simp only: insert_iff empty_iff de_Morgan_disj simp_thms)

lemma command_default:
  assumes "preset \<notin> recognised_presets"
  shows "get_ffmpeg_command preset input_path output_path =
           default_invocation input_path output_path"
proof -
  from assms have ne: "preset \<noteq> ''lofi''" "preset \<noteq> ''tiktok_lofi''" "preset \<noteq> ''chill_lofi''"
    "preset \<noteq> ''reverb''" "preset \<noteq> ''nightcore''" "preset \<noteq> ''8d_audio''"
    "preset \<noteq> ''vaporwave''"
    by (simp_all only: unrecognised_iff simp_thms)
  show ?thesis
    unfolding get_ffmpeg_command_def default_invocation_def
    by (simp only: ne simp_thms if_False)
qed

lemma default_has_no_chain:
  "default_invocation input_path output_path \<noteq>
     filtered_invocation input_path chain output_path"
  by (simp add: default_invocation_def filtered_invocation_def)

lemma command_lofi:
  \<open>get_ffmpeg_command ''lofi'' input_path output_path =
     filtered_invocation input_path
       ''lowpass=f=3000,highpass=f=200,equalizer=f=60:width_type=h:width=100:g=10,vibrato=f=0.25:d=0.3,asetrate=44100*0.97,aresample=44100''
       output_path\<close>
  by (simp add: get_ffmpeg_command_def filtered_invocation_def)

lemma command_reverb:
  \<open>get_ffmpeg_command ''reverb'' input_path output_path =
     filtered_invocation input_path
       ''atempo=0.85,asetrate=44100*0.95,aresample=44100,reverb=roomsize=0.8:wet=0.45:dry=0.55,equalizer=f=60:width_type=h:width=100:g=12''
       output_path\<close>
  by (simp add: get_ffmpeg_command_def filtered_invocation_def)

lemma command_nightcore:
  \<open>get_ffmpeg_command ''nightcore'' input_path output_path =
     filtered_invocation input_path
       ''atempo=1.25,asetrate=44100*1.1,aresample=44100,highpass=f=100,equalizer=f=8000:width_type=h:width=2000:g=8''
       output_path\<close>
  by (simp add: get_ffmpeg_command_def filtered_invocation_def)

lemma command_8d_audio:
  \<open>get_ffmpeg_command ''8d_audio'' input_path output_path =
     filtered_invocation input_path
       ''apulsator=hz=0.35:width=0.5,stereotools=mlev=0.5:phase=0.25,extrastereo=m=2.0,reverb=roomsize=0.5:wet=0.3''
       output_path\<close>
  by (simp add: get_ffmpeg_command_def filtered_invocation_def)

lemma command_vaporwave:
  \<open>get_ffmpeg_command ''vaporwave'' input_path output_path =
     filtered_invocation input_path
       ''atempo=0.90,asetrate=44100*0.93,aresample=44100,reverb=roomsize=0.6:wet=0.35,equalizer=f=60:width_type=h:width=100:g=10''
       output_path\<close>
  by (simp add: get_ffmpeg_command_def filtered_invocation_def)

lemma command_aliases:
  "get_ffmpeg_command ''tiktok_lofi'' input_path output_path =
     get_ffmpeg_command ''lofi'' input_path output_path"
  "get_ffmpeg_command ''chill_lofi'' input_path output_path =
     get_ffmpeg_command ''lofi'' input_path output_path"
  by (simp_all add: get_ffmpeg_command_def)

lemmas reading_defs =
  filter_chain_stages_def parse_filter_def parse_option_def before_def after_def
  opt_decimal_def decimal_def nat_of_string_def digit_def

lemma chain_lofi:
  "chain_matches (table_4_2 ''lofi'') (filter_chain_stages
     ''lowpass=f=3000,highpass=f=200,equalizer=f=60:width_type=h:width=100:g=10,vibrato=f=0.25:d=0.3,asetrate=44100*0.97,aresample=44100'')"
  by (simp add: table_4_2_def reading_defs)

lemma chain_reverb:
  "chain_matches (table_4_2 ''reverb'') (filter_chain_stages
     ''atempo=0.85,asetrate=44100*0.95,aresample=44100,reverb=roomsize=0.8:wet=0.45:dry=0.55,equalizer=f=60:width_type=h:width=100:g=12'')"
  by (simp add: table_4_2_def reading_defs)

lemma chain_nightcore:
  "chain_matches (table_4_2 ''nightcore'') (filter_chain_stages
     ''atempo=1.25,asetrate=44100*1.1,aresample=44100,highpass=f=100,equalizer=f=8000:width_type=h:width=2000:g=8'')"
  by (simp add: table_4_2_def reading_defs)

lemma chain_8d_audio:
  "chain_matches (table_4_2 ''8d_audio'') (filter_chain_stages
     ''apulsator=hz=0.35:width=0.5,stereotools=mlev=0.5:phase=0.25,extrastereo=m=2.0,reverb=roomsize=0.5:wet=0.3'')"
  by (simp add: table_4_2_def reading_defs)

lemma chain_vaporwave:
  "chain_matches (table_4_2 ''vaporwave'') (filter_chain_stages
     ''atempo=0.90,asetrate=44100*0.93,aresample=44100,reverb=roomsize=0.6:wet=0.35,equalizer=f=60:width_type=h:width=100:g=10'')"
  by (simp add: table_4_2_def reading_defs)

lemma table_aliases:
  "table_4_2 ''tiktok_lofi'' = table_4_2 ''lofi''"
  "table_4_2 ''chill_lofi'' = table_4_2 ''lofi''"
  by (simp_all add: table_4_2_def)

lemma table_rows_nonempty:
  "table_4_2 ''lofi'' \<noteq> []" "table_4_2 ''reverb'' \<noteq> []" "table_4_2 ''nightcore'' \<noteq> []"
  "table_4_2 ''8d_audio'' \<noteq> []" "table_4_2 ''vaporwave'' \<noteq> []"
  by (simp_all add: table_4_2_def)

lemma has_chainI:
  assumes "cmd = filtered_invocation input_path c output_path" and "c \<noteq> []"
    and "row \<noteq> []" and "chain_matches row (filter_chain_stages c)"
  shows "\<exists>chain. cmd = filtered_invocation input_path chain output_path \<and>
           chain \<noteq> [] \<and> row \<noteq> [] \<and> chain_matches row (filter_chain_stages chain)"
  using assms by blast

text \<open>
  Claim C2. For each of the seven preset identifiers and any two paths, the command
  builder returns the invocation with a filter chain: the chain is not empty, and read
  filter by filter it realises, stage by stage and in order, the row of the table of
  section 4.2 for that preset (a row that is not empty). For every other string it
  returns the default invocation, which re-encodes and is not an invocation with a
  filter chain, whatever the chain.
\<close>

theorem get_ffmpeg_command_table:
  "(preset \<in> recognised_presets \<longrightarrow>
      (\<exists>chain. get_ffmpeg_command preset input_path output_path =
                 filtered_invocation input_path chain output_path \<and>
               chain \<noteq> [] \<and> table_4_2 preset \<noteq> [] \<and>
               chain_matches (table_4_2 preset) (filter_chain_stages chain))) \<and>
   (preset \<notin> recognised_presets \<longrightarrow>
      get_ffmpeg_command preset input_path output_path =
        default_invocation input_path output_path \<and>
      (\<forall>chain. get_ffmpeg_command preset input_path output_path \<noteq>
         filtered_invocation input_path chain output_path))"
proof (intro conjI impI allI)
  assume "preset \<notin> recognised_presets"
  then show "get_ffmpeg_command preset input_path output_path =
        default_invocation input_path output_path"
    by (rule command_default)
next
  fix chain
  assume "preset \<notin> recognised_presets"
  then show "get_ffmpeg_command preset input_path output_path \<noteq>
         filtered_invocation input_path chain output_path"
    by (simp only: command_default default_has_no_chain simp_thms)
next
  assume "preset \<in> recognised_presets"
  then consider "preset = ''lofi''" | "preset = ''tiktok_lofi''" | "preset = ''chill_lofi''"
    | "preset = ''reverb''" | "preset = ''nightcore''" | "preset = ''8d_audio''"
    | "preset = ''vaporwave''"
    unfolding recognised_presets_def by (elim insertE emptyE) simp_all
  then show "\<exists>chain. get_ffmpeg_command preset input_path output_path =
                 filtered_invocation input_path chain output_path \<and>
               chain \<noteq> [] \<and> table_4_2 preset \<noteq> [] \<and>
               chain_matches (table_4_2 preset) (filter_chain_stages chain)"
  proof cases
    case 1
    show ?thesis
      unfolding 1
      by (rule has_chainI [OF command_lofi _ table_rows_nonempty(1) chain_lofi]) simp
  next
    case 2
    show ?thesis
      unfolding 2 command_aliases table_aliases
      by (rule has_chainI [OF command_lofi _ table_rows_nonempty(1) chain_lofi]) simp
  next
    case 3
    show ?thesis
      unfolding 3 command_aliases table_aliases
      by (rule has_chainI [OF command_lofi _ table_rows_nonempty(1) chain_lofi]) simp
  next
    case 4
    show ?thesis
      unfolding 4
      by (rule has_chainI [OF command_reverb _ table_rows_nonempty(2) chain_reverb]) simp
  next
    case 5
    show ?thesis
      unfolding 5
      by (rule has_chainI [OF command_nightcore _ table_rows_nonempty(3) chain_nightcore]) simp
  next
    case 6
    show ?thesis
      unfolding 6
      by (rule has_chainI [OF command_8d_audio _ table_rows_nonempty(4) chain_8d_audio]) simp
  next
    case 7
    show ?thesis
      unfolding 7
      by (rule has_chainI [OF command_vaporwave _ table_rows_nonempty(5) chain_vaporwave]) simp
  qed
qed

theorem get_ffmpeg_command_table_witness:
  \<open>''nightcore'' \<in> recognised_presets \<and> ''not_a_real_preset'' \<notin> recognised_presets \<and>
   (\<exists>chain. get_ffmpeg_command ''nightcore'' ''in.mp3'' ''out.m4a'' =
                 filtered_invocation ''in.mp3'' chain ''out.m4a'' \<and>
               chain \<noteq> [] \<and> table_4_2 ''nightcore'' \<noteq> [] \<and>
               chain_matches (table_4_2 ''nightcore'') (filter_chain_stages chain)) \<and>
   get_ffmpeg_command ''not_a_real_preset'' ''in.mp3'' ''out.m4a'' =
     ''ffmpeg -i "in.mp3" -c:a aac -b:a 320k "out.m4a"''\<close>
proof -
  have a: "''nightcore'' \<in> recognised_presets"
    by (simp add: recognised_presets_def)
  have b: "''not_a_real_preset'' \<notin> recognised_presets"
    by (simp add: recognised_presets_def)
  have c: \<open>default_invocation ''in.mp3'' ''out.m4a'' =
             ''ffmpeg -i "in.mp3" -c:a aac -b:a 320k "out.m4a"''\<close>
    by (simp add: default_invocation_def)
  from a b c
    get_ffmpeg_command_table [of "''nightcore''" "''in.mp3''" "''out.m4a''"]
    get_ffmpeg_command_table [of "''not_a_real_preset''" "''in.mp3''" "''out.m4a''"]
  show ?thesis by simp
qed

text \<open>
  Claim C7. For every input path and output path, the command builder returns the same
  command, character for character, for the presets \<open>lofi\<close>, \<open>tiktok_lofi\<close> and
  \<open>chill_lofi\<close>.
\<close>

theorem lofi_aliases_same_command:
  "get_ffmpeg_command ''tiktok_lofi'' input_path output_path =
     get_ffmpeg_command ''lofi'' input_path output_path \<and>
   get_ffmpeg_command ''chill_lofi'' input_path output_path =
     get_ffmpeg_command ''lofi'' input_path output_path"
  by (simp add: get_ffmpeg_command_def)

text \<open>
  Claim C9. For two preset strings that are both outside the seven recognised
  identifiers, and the same input and output paths, the command builder returns the
  same command: the default command does not depend on the unrecognised preset.
\<close>

theorem unrecognised_presets_same_command:
  assumes "p1 \<notin> recognised_presets" and "p2 \<notin> recognised_presets"
  shows "get_ffmpeg_command p1 input_path output_path =
           get_ffmpeg_command p2 input_path output_path"
  by (simp only: command_default [OF assms(1)] command_default [OF assms(2)])

theorem unrecognised_presets_same_command_witness:
  "''jazz'' \<notin> recognised_presets \<and> ''LOFI'' \<notin> recognised_presets \<and>
   get_ffmpeg_command ''jazz'' ''a.mp3'' ''b.m4a'' = get_ffmpeg_command ''LOFI'' ''a.mp3'' ''b.m4a''"
proof -
  have a: "''jazz'' \<notin> recognised_presets" and b: "''LOFI'' \<notin> recognised_presets"
    by (simp_all add: recognised_presets_def)
  from a b unrecognised_presets_same_command [OF a b, of "''a.mp3''" "''b.m4a''"]
  show ?thesis by simp
qed

section \<open>Properties of the request handler\<close>

lemma fst_process_audio:
  "fst (process_audio env file preset fs) =
     except_clauses (fst (try_body env file preset
        (input_path_of (uuid4 env)) (output_path_of (uuid4 env)) fs))"
  by (simp add: process_audio_def cleanup_def Let_def split: prod.splits sum.splits)

lemma snd_process_audio:
  "snd (process_audio env file preset fs) =
     snd (cleanup env (input_path_of (uuid4 env))
        (snd (try_body env file preset
           (input_path_of (uuid4 env)) (output_path_of (uuid4 env)) fs)))"
  by (simp add: process_audio_def cleanup_def Let_def split: prod.splits sum.splits)

lemma try_body_save_raises:
  assumes "save_upload env file input_path fs = (Inl e, fs1)"
  shows "try_body env file preset input_path output_path fs = (Inl e, fs1)"
  using assms by (simp add: try_body_def)

lemma try_body_not_run:
  assumes "engine_run env file preset fs = None"
  shows "\<exists>e. fst (try_body env file preset
            (input_path_of (uuid4 env)) (output_path_of (uuid4 env)) fs) = Inl e"
  using assms
  by (simp add: engine_run_def try_body_def Let_def split: prod.splits sum.splits)

lemma try_body_run_raises:
  assumes "engine_run env file preset fs = Some (Inl e, fs2)"
  shows "try_body env file preset
           (input_path_of (uuid4 env)) (output_path_of (uuid4 env)) fs = (Inl e, fs2)"
  using assms
  by (simp add: engine_run_def try_body_def Let_def split: prod.splits sum.splits)

lemma try_body_completed:
  assumes "engine_run env file preset fs = Some (Inr result, fs2)"
  shows "try_body env file preset
           (input_path_of (uuid4 env)) (output_path_of (uuid4 env)) fs =
         (if returncode result \<noteq> 0 then
            Inr (JSON [(''status'', ''error''), (''message'', ''Processing failed''),
                       (''error'', stderr result)])
          else if fs2 (output_path_of (uuid4 env)) = None then
            Inr (JSON [(''status'', ''error''), (''message'', ''Output file not created'')])
          else
            Inr (FileResponse (output_path_of (uuid4 env)) ''audio/mp4''
                   (preset @ ''_'' @ hd (rsplit1 CHR ''.'' (filename file)) @ ''.m4a'')),
          fs2)"
  using assms
  by (simp add: engine_run_def try_body_def Let_def split: prod.splits sum.splits)

lemma except_clauses_returns: "\<exists>resp. except_clauses r = Inr resp"
  by (simp add: except_clauses_def split: sum.splits exn.splits)

lemma except_clauses_json: "except_clauses (Inl e) = Inr (JSON body) \<Longrightarrow> map_of body ''error'' = None"
  by (auto simp add: except_clauses_def split: exn.splits)

lemma cleanup_removes:
  assumes "unlink_fault env = None"
  shows "snd (cleanup env p fs) p = None"
  using assms by (simp add: cleanup_def unlink_def)







lemmas run_defs =
  process_audio_def try_body_def save_upload_def except_clauses_def cleanup_def unlink_def
  engine_run_def input_path_of_def output_path_of_def TEMP_DIR_def rsplit1_def
  env_of_def env_unlink_denied_def env_open_fault_def song_def empty_fs_def
  engine_writes_def engine_fails_def engine_silent_def engine_hangs_def

lemma response_completed:
  assumes "engine_run env file preset fs = Some (Inr result, fs2)"
  shows "fst (process_audio env file preset fs) =
         (if returncode result \<noteq> 0 then
            Inr (JSON [(''status'', ''error''), (''message'', ''Processing failed''),
                       (''error'', stderr result)])
          else if fs2 (output_path_of (uuid4 env)) = None then
            Inr (JSON [(''status'', ''error''), (''message'', ''Output file not created'')])
          else
            Inr (FileResponse (output_path_of (uuid4 env)) ''audio/mp4''
                   (preset @ ''_'' @ hd (rsplit1 CHR ''.'' (filename file)) @ ''.m4a'')))"
  by (simp add: fst_process_audio try_body_completed [OF assms] except_clauses_def)

lemma response_run_raises:
  assumes "engine_run env file preset fs = Some (Inl e, fs2)"
  shows "fst (process_audio env file preset fs) = except_clauses (Inl e)"
  by (simp add: fst_process_audio try_body_run_raises [OF assms])

lemma response_save_raises:
  assumes "save_upload env file (input_path_of (uuid4 env)) fs = (Inl e, fs1)"
  shows "fst (process_audio env file preset fs) = except_clauses (Inl e)"
  by (simp add: fst_process_audio try_body_save_raises [OF assms])

lemma response_not_run:
  assumes "engine_run env file preset fs = None"
  shows "\<exists>e. fst (process_audio env file preset fs) = except_clauses (Inl e)"
  using try_body_not_run [OF assms] by (auto simp add: fst_process_audio)

lemma except_clauses_not_file:
  "except_clauses (Inl e) \<noteq> Inr (FileResponse p m n)"
  "Inr (FileResponse p m n) \<noteq> except_clauses (Inl e)"
  by (simp_all add: except_clauses_def split: exn.splits)

text \<open>
  Claim C1, as amended. For every call of the handler, whatever the outcome of the
  request, the input file of the request does not exist when the handler returns,
  provided that unlinking the file does not raise.
\<close>

theorem input_file_removed_if_unlink_succeeds:
  assumes "unlink_fault env = None"
  shows "snd (process_audio env file preset fs) (input_path_of (uuid4 env)) = None"
  by (simp only: snd_process_audio cleanup_removes [OF assms])

theorem input_file_removed_if_unlink_succeeds_witness:
  "unlink_fault (env_of engine_fails) = None \<and>
   uuid4 (env_of engine_fails) = ''job1'' \<and>
   snd (process_audio (env_of engine_fails) song ''nightcore'' empty_fs)
     (input_path_of ''job1'') = None"
  using input_file_removed_if_unlink_succeeds [of "env_of engine_fails" song "''nightcore''" empty_fs]
  by (simp add: env_of_def)

text \<open>
  Claim C1, as stated, fails: when unlinking raises, the exception is caught and the
  input file is still there when the handler returns, here after a successful request.
\<close>

theorem input_file_survives_failed_unlink:
  "fst (process_audio (env_unlink_denied engine_writes) song ''nightcore'' empty_fs) =
     Inr (FileResponse ''/tmp/audio/job1_output.m4a'' ''audio/mp4'' ''nightcore_song.m4a'') \<and>
   snd (process_audio (env_unlink_denied engine_writes) song ''nightcore'' empty_fs)
     ''/tmp/audio/job1_input.mp3'' = Some ''RIFF''"
  by (simp add: run_defs)

text \<open>
  Claim C3. The handler returns a file response if and only if the engine ran, exited
  with status 0 and left the expected output file; when the engine exited with status 0
  and the output file is absent, the handler returns the error body with the message
  \<open>Output file not created\<close>.
\<close>

theorem file_iff_exit_zero_and_output:
  "((\<exists>p m n. fst (process_audio env file preset fs) = Inr (FileResponse p m n)) \<longleftrightarrow>
      (\<exists>result fs2. engine_run env file preset fs = Some (Inr result, fs2) \<and>
         returncode result = 0 \<and> fs2 (output_path_of (uuid4 env)) \<noteq> None)) \<and>
   (engine_run env file preset fs = Some (Inr result', fs2') \<and>
      returncode result' = 0 \<and> fs2' (output_path_of (uuid4 env)) = None \<longrightarrow>
      fst (process_audio env file preset fs) =
        Inr (JSON [(''status'', ''error''), (''message'', ''Output file not created'')]))"
proof (intro conjI iffI impI)
  assume "\<exists>p m n. fst (process_audio env file preset fs) = Inr (FileResponse p m n)"
  then obtain p m n where f: "fst (process_audio env file preset fs) = Inr (FileResponse p m n)"
    by blast
  show "\<exists>result fs2. engine_run env file preset fs = Some (Inr result, fs2) \<and>
         returncode result = 0 \<and> fs2 (output_path_of (uuid4 env)) \<noteq> None"
  proof (cases "engine_run env file preset fs")
    case None
    from response_not_run [OF None] f show ?thesis
      by (auto simp add: except_clauses_not_file)
  next
    case (Some a)
    obtain r fs2 where a: "a = (r, fs2)" by (cases a)
    show ?thesis
    proof (cases r)
      case (Inl e)
      with Some a have "engine_run env file preset fs = Some (Inl e, fs2)" by simp
      from response_run_raises [OF this] f show ?thesis
        by (simp add: except_clauses_not_file)
    next
      case (Inr result)
      with Some a have c: "engine_run env file preset fs = Some (Inr result, fs2)" by simp
      from response_completed [OF c] f
      have "returncode result = 0 \<and> fs2 (output_path_of (uuid4 env)) \<noteq> None"
        by (simp split: if_splits)
      with c show ?thesis by blast
    qed
  qed
next
  assume "\<exists>result fs2. engine_run env file preset fs = Some (Inr result, fs2) \<and>
         returncode result = 0 \<and> fs2 (output_path_of (uuid4 env)) \<noteq> None"
  then obtain result fs2 where c: "engine_run env file preset fs = Some (Inr result, fs2)"
    and z: "returncode result = 0" and o: "fs2 (output_path_of (uuid4 env)) \<noteq> None"
    by blast
  from response_completed [OF c] z o
  show "\<exists>p m n. fst (process_audio env file preset fs) = Inr (FileResponse p m n)"
    by simp
next
  assume "engine_run env file preset fs = Some (Inr result', fs2') \<and>
      returncode result' = 0 \<and> fs2' (output_path_of (uuid4 env)) = None"
  then have c: "engine_run env file preset fs = Some (Inr result', fs2')"
    and z: "returncode result' = 0" and o: "fs2' (output_path_of (uuid4 env)) = None"
    by simp_all
  from response_completed [OF c] z o
  show "fst (process_audio env file preset fs) =
        Inr (JSON [(''status'', ''error''), (''message'', ''Output file not created'')])"
    by simp
qed

theorem file_iff_exit_zero_and_output_witness:
  "engine_run (env_of engine_silent) song ''lofi'' empty_fs =
     Some (Inr \<lparr>returncode = 0, stderr = []\<rparr>, empty_fs(''/tmp/audio/job1_input.mp3'' \<mapsto> ''RIFF'')) \<and>
   fst (process_audio (env_of engine_silent) song ''lofi'' empty_fs) =
     Inr (JSON [(''status'', ''error''), (''message'', ''Output file not created'')]) \<and>
   \<not> (\<exists>p m n. fst (process_audio (env_of engine_fails) song ''lofi'' empty_fs) =
         Inr (FileResponse p m n)) \<and>
   (\<exists>p m n. fst (process_audio (env_of engine_writes) song ''lofi'' empty_fs) =
         Inr (FileResponse p m n))"
proof -
  have a: "engine_run (env_of engine_silent) song ''lofi'' empty_fs =
     Some (Inr \<lparr>returncode = 0, stderr = []\<rparr>, empty_fs(''/tmp/audio/job1_input.mp3'' \<mapsto> ''RIFF''))"
    by (simp add: engine_run_def save_upload_def env_of_def engine_silent_def song_def
        input_path_of_def TEMP_DIR_def empty_fs_def)
  have b: "(empty_fs(''/tmp/audio/job1_input.mp3'' \<mapsto> ''RIFF''))
             (output_path_of (uuid4 (env_of engine_silent))) = None"
    by (simp add: env_of_def output_path_of_def TEMP_DIR_def empty_fs_def)
  have c: "engine_run (env_of engine_fails) song ''lofi'' empty_fs =
     Some (Inr \<lparr>returncode = 1, stderr = ''Invalid data found''\<rparr>,
           empty_fs(''/tmp/audio/job1_input.mp3'' \<mapsto> ''RIFF''))"
    by (simp add: engine_run_def save_upload_def env_of_def engine_fails_def song_def
        input_path_of_def TEMP_DIR_def empty_fs_def)
  have d: "engine_run (env_of engine_writes) song ''lofi'' empty_fs =
     Some (Inr \<lparr>returncode = 0, stderr = []\<rparr>,
           empty_fs(''/tmp/audio/job1_input.mp3'' \<mapsto> ''RIFF'',
                    ''/tmp/audio/job1_output.m4a'' \<mapsto> ''aac''))"
    by (simp add: engine_run_def save_upload_def env_of_def engine_writes_def song_def
        input_path_of_def output_path_of_def TEMP_DIR_def empty_fs_def)
  have e: "(empty_fs(''/tmp/audio/job1_input.mp3'' \<mapsto> ''RIFF'',
                    ''/tmp/audio/job1_output.m4a'' \<mapsto> ''aac''))
             (output_path_of (uuid4 (env_of engine_writes))) \<noteq> None"
    by (simp add: env_of_def output_path_of_def TEMP_DIR_def)
  from a b
    file_iff_exit_zero_and_output [of "env_of engine_silent" song "''lofi''" empty_fs
      "\<lparr>returncode = 0, stderr = []\<rparr>" "empty_fs(''/tmp/audio/job1_input.mp3'' \<mapsto> ''RIFF'')"]
  have 1: "fst (process_audio (env_of engine_silent) song ''lofi'' empty_fs) =
     Inr (JSON [(''status'', ''error''), (''message'', ''Output file not created'')])"
    by simp
  from c file_iff_exit_zero_and_output [of "env_of engine_fails" song "''lofi''" empty_fs]
  have 2: "\<not> (\<exists>p m n. fst (process_audio (env_of engine_fails) song ''lofi'' empty_fs) =
         Inr (FileResponse p m n))"
    by simp
  from d e file_iff_exit_zero_and_output [of "env_of engine_writes" song "''lofi''" empty_fs]
  have 3: "\<exists>p m n. fst (process_audio (env_of engine_writes) song ''lofi'' empty_fs) =
         Inr (FileResponse p m n)"
    by simp
  from a 1 2 3 show ?thesis by simp
qed

lemma engine_run_saved:
  assumes "save_upload env file (input_path_of (uuid4 env)) fs = (Inr u, fs1)"
  shows "engine_run env file preset fs =
           Some (subprocess_run env
             (get_ffmpeg_command preset (input_path_of (uuid4 env)) (output_path_of (uuid4 env)))
             300 fs1)"
  using assms by (simp add: engine_run_def Let_def)

lemma save_upload_unlink_fault:
  "save_upload (env\<lparr>unlink_fault := u\<rparr>) file input_path fs =
     save_upload env file input_path fs"
  by (simp add: save_upload_def Let_def split: option.splits sum.splits)

lemma try_body_unlink_fault:
  "try_body (env\<lparr>unlink_fault := u\<rparr>) file preset input_path output_path fs =
     try_body env file preset input_path output_path fs"
  by (simp add: try_body_def save_upload_unlink_fault Let_def split: prod.splits sum.splits)

lemma saved_song:
  "save_upload (env_of run) song (input_path_of (uuid4 (env_of run))) empty_fs =
     (Inr (), empty_fs(''/tmp/audio/job1_input.mp3'' \<mapsto> ''RIFF''))"
  by (simp add: save_upload_def env_of_def song_def input_path_of_def TEMP_DIR_def)

lemma engine_run_song:
  "engine_run (env_of run) song preset empty_fs =
     Some (run (get_ffmpeg_command preset ''/tmp/audio/job1_input.mp3''
                  ''/tmp/audio/job1_output.m4a'')
             300 (empty_fs(''/tmp/audio/job1_input.mp3'' \<mapsto> ''RIFF'')))"
  unfolding engine_run_saved [OF saved_song]
  by (simp add: env_of_def input_path_of_def output_path_of_def TEMP_DIR_def)

text \<open>
  Claim C4, as amended. The diagnostic text of the engine is in the response, under the
  key \<open>error\<close> and beside the fixed message \<open>Processing failed\<close>, exactly when the
  engine exited with a status other than 0. A missing output file and a timeout are
  reported with the fixed messages \<open>Output file not created\<close> and
  \<open>Processing timeout\<close>. A failure to save the upload and any other exception of the
  request are reported with the text of the exception as the message.
\<close>

theorem error_text_sources:
  "(engine_run env file preset fs = Some (Inr result, fs2) \<and> returncode result \<noteq> 0 \<longrightarrow>
      fst (process_audio env file preset fs) =
        Inr (JSON [(''status'', ''error''), (''message'', ''Processing failed''),
                   (''error'', stderr result)])) \<and>
   (fst (process_audio env file preset fs) = Inr (JSON body) \<and>
      map_of body ''error'' = Some txt \<longrightarrow>
      (\<exists>res fs'. engine_run env file preset fs = Some (Inr res, fs') \<and>
         returncode res \<noteq> 0 \<and> txt = stderr res)) \<and>
   (engine_run env file preset fs = Some (Inr result, fs2) \<and> returncode result = 0 \<and>
      fs2 (output_path_of (uuid4 env)) = None \<longrightarrow>
      fst (process_audio env file preset fs) =
        Inr (JSON [(''status'', ''error''), (''message'', ''Output file not created'')])) \<and>
   (engine_run env file preset fs = Some (Inl TimeoutExpired, fs2) \<longrightarrow>
      fst (process_audio env file preset fs) =
        Inr (JSON [(''status'', ''error''), (''message'', ''Processing timeout'')])) \<and>
   (save_upload env file (input_path_of (uuid4 env)) fs = (Inl (Exception msg), fs1) \<longrightarrow>
      fst (process_audio env file preset fs) =
        Inr (JSON [(''status'', ''error''), (''message'', msg)])) \<and>
   (engine_run env file preset fs = Some (Inl (Exception msg), fs2) \<longrightarrow>
      fst (process_audio env file preset fs) =
        Inr (JSON [(''status'', ''error''), (''message'', msg)]))"
proof (intro conjI impI)
  assume "engine_run env file preset fs = Some (Inr result, fs2) \<and> returncode result \<noteq> 0"
  then have c: "engine_run env file preset fs = Some (Inr result, fs2)"
    and nz: "returncode result \<noteq> 0" by simp_all
  from response_completed [OF c] nz
  show "fst (process_audio env file preset fs) =
        Inr (JSON [(''status'', ''error''), (''message'', ''Processing failed''),
                   (''error'', stderr result)])"
    by simp
next
  assume "fst (process_audio env file preset fs) = Inr (JSON body) \<and>
      map_of body ''error'' = Some txt"
  then have r: "fst (process_audio env file preset fs) = Inr (JSON body)"
    and t: "map_of body ''error'' = Some txt" by simp_all
  show "\<exists>res fs'. engine_run env file preset fs = Some (Inr res, fs') \<and>
         returncode res \<noteq> 0 \<and> txt = stderr res"
  proof (cases "engine_run env file preset fs")
    case None
    from response_not_run [OF None] obtain e
      where "fst (process_audio env file preset fs) = except_clauses (Inl e)" by blast
    with r have "except_clauses (Inl e) = Inr (JSON body)" by simp
    from except_clauses_json [OF this] t show ?thesis by simp
  next
    case (Some a)
    obtain x fs' where a: "a = (x, fs')" by (cases a)
    show ?thesis
    proof (cases x)
      case (Inl e)
      with Some a have "engine_run env file preset fs = Some (Inl e, fs')" by simp
      from response_run_raises [OF this] r
      have "except_clauses (Inl e) = Inr (JSON body)" by simp
      from except_clauses_json [OF this] t show ?thesis by simp
    next
      case (Inr res)
      with Some a have c: "engine_run env file preset fs = Some (Inr res, fs')" by simp
      from response_completed [OF c] r t
      have "returncode res \<noteq> 0 \<and> txt = stderr res"
        by (auto split: if_splits)
      with c show ?thesis by blast
    qed
  qed
next
  assume "engine_run env file preset fs = Some (Inr result, fs2) \<and> returncode result = 0 \<and>
      fs2 (output_path_of (uuid4 env)) = None"
  then have c: "engine_run env file preset fs = Some (Inr result, fs2)"
    and z: "returncode result = 0" and o: "fs2 (output_path_of (uuid4 env)) = None"
    by simp_all
  from response_completed [OF c] z o
  show "fst (process_audio env file preset fs) =
        Inr (JSON [(''status'', ''error''), (''message'', ''Output file not created'')])"
    by simp
next
  assume "engine_run env file preset fs = Some (Inl TimeoutExpired, fs2)"
  from response_run_raises [OF this]
  show "fst (process_audio env file preset fs) =
        Inr (JSON [(''status'', ''error''), (''message'', ''Processing timeout'')])"
    by (simp add: except_clauses_def)
next
  assume "save_upload env file (input_path_of (uuid4 env)) fs = (Inl (Exception msg), fs1)"
  from response_save_raises [OF this]
  show "fst (process_audio env file preset fs) =
        Inr (JSON [(''status'', ''error''), (''message'', msg)])"
    by (simp add: except_clauses_def)
next
  assume "engine_run env file preset fs = Some (Inl (Exception msg), fs2)"
  from response_run_raises [OF this]
  show "fst (process_audio env file preset fs) =
        Inr (JSON [(''status'', ''error''), (''message'', msg)])"
    by (simp add: except_clauses_def)
qed

theorem error_text_sources_witness:
  "fst (process_audio (env_of engine_fails) song ''lofi'' empty_fs) =
     Inr (JSON [(''status'', ''error''), (''message'', ''Processing failed''),
                (''error'', ''Invalid data found'')]) \<and>
   (\<exists>res fs'. engine_run (env_of engine_fails) song ''lofi'' empty_fs = Some (Inr res, fs') \<and>
      returncode res \<noteq> 0 \<and> ''Invalid data found'' = stderr res) \<and>
   fst (process_audio (env_of engine_silent) song ''lofi'' empty_fs) =
     Inr (JSON [(''status'', ''error''), (''message'', ''Output file not created'')]) \<and>
   fst (process_audio (env_of engine_hangs) song ''lofi'' empty_fs) =
     Inr (JSON [(''status'', ''error''), (''message'', ''Processing timeout'')]) \<and>
   fst (process_audio (env_open_fault ''Permission denied'') song ''lofi'' empty_fs) =
     Inr (JSON [(''status'', ''error''), (''message'', ''Permission denied'')]) \<and>
   fst (process_audio (env_of engine_unstartable) song ''lofi'' empty_fs) =
     Inr (JSON [(''status'', ''error''), (''message'', ''Cannot allocate memory'')])"
proof -
  let ?fs1 = "empty_fs(''/tmp/audio/job1_input.mp3'' \<mapsto> ''RIFF'')"
  have f: "engine_run (env_of engine_fails) song ''lofi'' empty_fs =
      Some (Inr \<lparr>returncode = 1, stderr = ''Invalid data found''\<rparr>, ?fs1)"
    by (simp add: engine_run_song engine_fails_def)
  from f error_text_sources [of "env_of engine_fails" song "''lofi''" empty_fs
      "\<lparr>returncode = 1, stderr = ''Invalid data found''\<rparr>" ?fs1]
  have 1: "fst (process_audio (env_of engine_fails) song ''lofi'' empty_fs) =
     Inr (JSON [(''status'', ''error''), (''message'', ''Processing failed''),
                (''error'', ''Invalid data found'')])"
    by simp
  from 1 error_text_sources [of "env_of engine_fails" song "''lofi''" empty_fs _ _
      "[(''status'', ''error''), (''message'', ''Processing failed''),
        (''error'', ''Invalid data found'')]" "''Invalid data found''"]
  have 2: "\<exists>res fs'. engine_run (env_of engine_fails) song ''lofi'' empty_fs = Some (Inr res, fs') \<and>
      returncode res \<noteq> 0 \<and> ''Invalid data found'' = stderr res"
    by simp
  have s: "engine_run (env_of engine_silent) song ''lofi'' empty_fs =
      Some (Inr \<lparr>returncode = 0, stderr = []\<rparr>, ?fs1)"
    by (simp add: engine_run_song engine_silent_def)
  have so: "?fs1 (output_path_of (uuid4 (env_of engine_silent))) = None"
    by (simp add: env_of_def output_path_of_def TEMP_DIR_def empty_fs_def)
  from s so error_text_sources [of "env_of engine_silent" song "''lofi''" empty_fs
      "\<lparr>returncode = 0, stderr = []\<rparr>" ?fs1]
  have 3: "fst (process_audio (env_of engine_silent) song ''lofi'' empty_fs) =
     Inr (JSON [(''status'', ''error''), (''message'', ''Output file not created'')])"
    by simp
  have h: "engine_run (env_of engine_hangs) song ''lofi'' empty_fs =
      Some (Inl TimeoutExpired, ?fs1)"
    by (simp add: engine_run_song engine_hangs_def)
  from h error_text_sources [of "env_of engine_hangs" song "''lofi''" empty_fs _ ?fs1]
  have 4: "fst (process_audio (env_of engine_hangs) song ''lofi'' empty_fs) =
     Inr (JSON [(''status'', ''error''), (''message'', ''Processing timeout'')])"
    by simp
  have p: "save_upload (env_open_fault ''Permission denied'') song
             (input_path_of (uuid4 (env_open_fault ''Permission denied''))) empty_fs =
           (Inl (Exception ''Permission denied''), empty_fs)"
    by (simp add: save_upload_def env_open_fault_def env_of_def)
  from p error_text_sources [of "env_open_fault ''Permission denied''" song "''lofi''" empty_fs
      _ _ _ _ "''Permission denied''" empty_fs]
  have 5: "fst (process_audio (env_open_fault ''Permission denied'') song ''lofi'' empty_fs) =
     Inr (JSON [(''status'', ''error''), (''message'', ''Permission denied'')])"
    by simp
  have u: "engine_run (env_of engine_unstartable) song ''lofi'' empty_fs =
      Some (Inl (Exception ''Cannot allocate memory''), ?fs1)"
    by (simp add: engine_run_song engine_unstartable_def)
  from u error_text_sources [of "env_of engine_unstartable" song "''lofi''" empty_fs _ ?fs1
      _ _ "''Cannot allocate memory''"]
  have 6: "fst (process_audio (env_of engine_unstartable) song ''lofi'' empty_fs) =
     Inr (JSON [(''status'', ''error''), (''message'', ''Cannot allocate memory'')])"
    by simp
  from 1 2 3 4 5 6 show ?thesis by blast
qed

text \<open>
  Claim C4, as stated, fails: a failure to save the upload is not reported with a fixed
  message. The message is the text of the exception, so two faults of \<open>open\<close> with
  different texts give two different messages.
\<close>

theorem upload_fault_message_varies:
  "fst (process_audio (env_open_fault ''No space left on device'') song ''lofi'' empty_fs) =
     Inr (JSON [(''status'', ''error''), (''message'', ''No space left on device'')]) \<and>
   fst (process_audio (env_open_fault ''Permission denied'') song ''lofi'' empty_fs) =
     Inr (JSON [(''status'', ''error''), (''message'', ''Permission denied'')])"
  by (simp add: run_defs)

text \<open>
  Claim C6. When the upload was saved and \<open>subprocess.run\<close>, called on the built
  command with the timeout of 300 seconds, raises \<open>TimeoutExpired\<close>, the handler
  returns the body with status \<open>error\<close> and the message \<open>Processing timeout\<close>.
\<close>

theorem timeout_response:
  assumes "save_upload env file (input_path_of (uuid4 env)) fs = (Inr (), fs1)"
    and "subprocess_run env
           (get_ffmpeg_command preset (input_path_of (uuid4 env)) (output_path_of (uuid4 env)))
           300 fs1 = (Inl TimeoutExpired, fs2)"
  shows "fst (process_audio env file preset fs) =
           Inr (JSON [(''status'', ''error''), (''message'', ''Processing timeout'')])"
proof -
  from assms have "engine_run env file preset fs = Some (Inl TimeoutExpired, fs2)"
    by (simp add: engine_run_saved)
  from response_run_raises [OF this] show ?thesis
    by (simp add: except_clauses_def)
qed

theorem timeout_response_witness:
  "save_upload (env_of engine_hangs) song (input_path_of (uuid4 (env_of engine_hangs))) empty_fs =
     (Inr (), empty_fs(''/tmp/audio/job1_input.mp3'' \<mapsto> ''RIFF'')) \<and>
   subprocess_run (env_of engine_hangs)
     (get_ffmpeg_command ''vaporwave'' (input_path_of (uuid4 (env_of engine_hangs)))
        (output_path_of (uuid4 (env_of engine_hangs))))
     300 (empty_fs(''/tmp/audio/job1_input.mp3'' \<mapsto> ''RIFF'')) =
     (Inl TimeoutExpired, empty_fs(''/tmp/audio/job1_input.mp3'' \<mapsto> ''RIFF'')) \<and>
   fst (process_audio (env_of engine_hangs) song ''vaporwave'' empty_fs) =
     Inr (JSON [(''status'', ''error''), (''message'', ''Processing timeout'')])"
proof -
  have b: "subprocess_run (env_of engine_hangs)
     (get_ffmpeg_command ''vaporwave'' (input_path_of (uuid4 (env_of engine_hangs)))
        (output_path_of (uuid4 (env_of engine_hangs))))
     300 (empty_fs(''/tmp/audio/job1_input.mp3'' \<mapsto> ''RIFF'')) =
     (Inl TimeoutExpired, empty_fs(''/tmp/audio/job1_input.mp3'' \<mapsto> ''RIFF''))"
    by (simp add: env_of_def engine_hangs_def)
  from saved_song b timeout_response [OF saved_song b]
  show ?thesis by blast
qed







text \<open>
  Claim C10. When unlinking the input file in the cleanup step raises, the exception does
  not leave the handler: the handler returns, and what it returns is the response that
  the body of the request and its \<open>except\<close> clauses had determined, the same as when
  the unlinking succeeds.
\<close>

theorem cleanup_fault_swallowed:
  assumes "unlink_fault env = Some e"
  shows "(\<exists>resp. fst (process_audio env file preset fs) = Inr resp) \<and>
         fst (process_audio env file preset fs) =
           except_clauses (fst (try_body env file preset
              (input_path_of (uuid4 env)) (output_path_of (uuid4 env)) fs)) \<and>
         fst (process_audio env file preset fs) =
           fst (process_audio (env\<lparr>unlink_fault := None\<rparr>) file preset fs)"
  by (simp add: fst_process_audio except_clauses_returns try_body_unlink_fault)

theorem cleanup_fault_swallowed_witness:
  "unlink_fault (env_unlink_denied engine_writes) = Some (Exception ''Permission denied'') \<and>
   snd (try_body (env_unlink_denied engine_writes) song ''nightcore''
          ''/tmp/audio/job1_input.mp3'' ''/tmp/audio/job1_output.m4a'' empty_fs)
     ''/tmp/audio/job1_input.mp3'' \<noteq> None \<and>
   fst (process_audio (env_unlink_denied engine_writes) song ''nightcore'' empty_fs) =
     Inr (FileResponse ''/tmp/audio/job1_output.m4a'' ''audio/mp4'' ''nightcore_song.m4a'') \<and>
   fst (process_audio (env_unlink_denied engine_writes) song ''nightcore'' empty_fs) =
     fst (process_audio ((env_unlink_denied engine_writes)\<lparr>unlink_fault := None\<rparr>)
            song ''nightcore'' empty_fs)"
proof -
  have a: "unlink_fault (env_unlink_denied engine_writes) = Some (Exception ''Permission denied'')"
    by (simp add: env_unlink_denied_def)
  have b: "snd (try_body (env_unlink_denied engine_writes) song ''nightcore''
          ''/tmp/audio/job1_input.mp3'' ''/tmp/audio/job1_output.m4a'' empty_fs)
     ''/tmp/audio/job1_input.mp3'' \<noteq> None"
    by (simp add: try_body_def save_upload_def env_unlink_denied_def env_of_def song_def
        engine_writes_def output_path_of_def TEMP_DIR_def)
  have c: "fst (try_body (env_unlink_denied engine_writes) song ''nightcore''
          ''/tmp/audio/job1_input.mp3'' ''/tmp/audio/job1_output.m4a'' empty_fs) =
     Inr (FileResponse ''/tmp/audio/job1_output.m4a'' ''audio/mp4'' ''nightcore_song.m4a'')"
    by (simp add: try_body_def save_upload_def env_unlink_denied_def env_of_def song_def
        engine_writes_def output_path_of_def TEMP_DIR_def rsplit1_def)
  have d: "input_path_of (uuid4 (env_unlink_denied engine_writes)) = ''/tmp/audio/job1_input.mp3''"
    "output_path_of (uuid4 (env_unlink_denied engine_writes)) = ''/tmp/audio/job1_output.m4a''"
    by (simp_all add: env_unlink_denied_def env_of_def input_path_of_def output_path_of_def
        TEMP_DIR_def)
  note t = cleanup_fault_swallowed [OF a, of song "''nightcore''" empty_fs]
  from t have e: "fst (process_audio (env_unlink_denied engine_writes) song ''nightcore'' empty_fs) =
      except_clauses (fst (try_body (env_unlink_denied engine_writes) song ''nightcore''
         (input_path_of (uuid4 (env_unlink_denied engine_writes)))
         (output_path_of (uuid4 (env_unlink_denied engine_writes))) empty_fs))"
    by (rule conjunct1 [OF conjunct2])
  from t have g: "fst (process_audio (env_unlink_denied engine_writes) song ''nightcore'' empty_fs) =
     fst (process_audio ((env_unlink_denied engine_writes)\<lparr>unlink_fault := None\<rparr>)
            song ''nightcore'' empty_fs)"
    by (rule conjunct2 [OF conjunct2])
  have f: "fst (process_audio (env_unlink_denied engine_writes) song ''nightcore'' empty_fs) =
     Inr (FileResponse ''/tmp/audio/job1_output.m4a'' ''audio/mp4'' ''nightcore_song.m4a'')"
    unfolding e d c by (simp add: except_clauses_def)
  show ?thesis
    by (rule conjI [OF a conjI [OF b conjI [OF f g]]])
qed

end
